theory Spec2Isabelle
  imports Complex_Main "HOL-Library.AList"
begin

section \<open>Numerology calculator (server/services/numerology.ts)\<close>

text \<open>
  JavaScript numbers that hold counts, digits and numerology numbers are modelled as
  \<open>nat\<close>: every value the calculator produces is a non-negative integer, and the
  decimal expansion \<open>num.toString()\<close> is the plain digit string for them (JavaScript
  prints integers from 10^21 on in exponent notation; the model has no such bound).
  Fractional JavaScript numbers (scores, longitudes) are modelled as exact rationals.
\<close>

subsection \<open>Digit reduction\<close>

text \<open>
  \<open>decimalDigits num\<close> is \<^verbatim>\<open>num.toString().split('')\<close> with every one-character
  string read back by \<^verbatim>\<open>parseInt\<close>: the decimal digits, most significant first.
\<close>

fun decimalDigits :: "nat \<Rightarrow> nat list" where
  "decimalDigits n = (if n < 10 then [n] else decimalDigits (n div 10) @ [n mod 10])"

declare decimalDigits.simps [simp del]

text \<open>\<^verbatim>\<open>.reduce((sum, digit) => sum + parseInt(digit), 0)\<close>\<close>

definition digitSum :: "nat \<Rightarrow> nat" where
  "digitSum num = foldl (\<lambda>sum digit. sum + digit) 0 (decimalDigits num)"

definition isMaster :: "nat \<Rightarrow> bool" where
  "isMaster num \<longleftrightarrow> num = 11 \<or> num = 22 \<or> num = 33"

lemma foldl_plus_start: "foldl (\<lambda>sum digit. sum + digit) a xs = a + foldl (\<lambda>sum digit. sum + digit) (0::nat) xs"
proof (induction xs arbitrary: a)
  case Nil
  show ?case by simp
next
  case (Cons x xs)
  have "foldl (\<lambda>sum digit. sum + digit) (a + x) xs = (a + x) + foldl (\<lambda>sum digit. sum + digit) 0 xs"
    by (rule Cons.IH)
  moreover have "foldl (\<lambda>sum digit. sum + digit) (0 + x) xs = x + foldl (\<lambda>sum digit. sum + digit) 0 xs"
    using Cons.IH [of x] by simp
  ultimately show ?case by simp
qed

lemma digitSum_rec:
  "digitSum n = (if n < 10 then n else digitSum (n div 10) + n mod 10)"
proof (cases "n < 10")
  case True
  then show ?thesis by (simp add: digitSum_def decimalDigits.simps [of n])
next
  case False
  then have "decimalDigits n = decimalDigits (n div 10) @ [n mod 10]"
    by (simp add: decimalDigits.simps [of n])
  with False show ?thesis by (simp add: digitSum_def)
qed

lemma digitSum_le: "digitSum n \<le> n"
proof (induction n rule: less_induct)
  case (less n)
  show ?case
  proof (cases "n < 10")
    case True
    then show ?thesis by (simp add: digitSum_rec [of n])
  next
    case False
    then have "digitSum (n div 10) \<le> n div 10" by (intro less.IH) simp
    with False show ?thesis by (simp add: digitSum_rec [of n])
  qed
qed

lemma digitSum_less: "9 < n \<Longrightarrow> digitSum n < n"
proof -
  assume "9 < n"
  then have big: "\<not> n < 10" and pos: "0 < n div 10" by simp_all
  have "digitSum (n div 10) \<le> n div 10" by (rule digitSum_le)
  with big pos show ?thesis by (simp add: digitSum_rec [of n]) presburger
qed


text \<open>
  The \<^verbatim>\<open>while (num > 9)\<close> loop of \<^verbatim>\<open>reduceToSingleDigit\<close>. It is total: the digit sum
  of a number above 9 is smaller than the number.
\<close>

function reduceLoop :: "nat \<Rightarrow> bool \<Rightarrow> nat" where
  "reduceLoop num keepMasterNumbers =
     (if num > 9 then
        (let num' = digitSum num in
         if keepMasterNumbers \<and> isMaster num' then num'
         else reduceLoop num' keepMasterNumbers)
      else num)"
  by pat_completeness auto
termination
  by (relation "measure (\<lambda>(num, keep). num)") (auto simp: digitSum_less)

declare reduceLoop.simps [simp del]

definition reduceToSingleDigit :: "nat \<Rightarrow> bool \<Rightarrow> nat" where
  "reduceToSingleDigit num keepMasterNumbers =
     (if keepMasterNumbers \<and> isMaster num then num
      else reduceLoop num keepMasterNumbers)"

definition calculateLifePathNumber :: "nat \<Rightarrow> nat \<Rightarrow> nat \<Rightarrow> nat" where
  "calculateLifePathNumber day month year =
     (let reducedDay = reduceToSingleDigit day True;
          reducedMonth = reduceToSingleDigit month True;
          reducedYear = reduceToSingleDigit year True;
          sum = reducedDay + reducedMonth + reducedYear
      in reduceToSingleDigit sum True)"

subsection \<open>Name numbers\<close>

text \<open>
  Strings are ASCII byte strings. \<open>letterValues\<close> is the Pythagorean table; a lookup of
  a key that is not in the table is \<^verbatim>\<open>undefined\<close>, which \<^verbatim>\<open>|| 0\<close> turns into 0.
\<close>

definition isUpperAZ :: "char \<Rightarrow> bool" where
  "isUpperAZ c \<longleftrightarrow> 65 \<le> (of_char c :: nat) \<and> (of_char c :: nat) \<le> 90"

definition toUpperChar :: "char \<Rightarrow> char" where
  "toUpperChar c =
     (if 97 \<le> (of_char c :: nat) \<and> (of_char c :: nat) \<le> 122
      then char_of ((of_char c :: nat) - 32) else c)"

definition letterValues :: "char \<Rightarrow> nat option" where
  "letterValues = map_of
     [(CHR ''A'', 1), (CHR ''B'', 2), (CHR ''C'', 3), (CHR ''D'', 4), (CHR ''E'', 5),
      (CHR ''F'', 6), (CHR ''G'', 7), (CHR ''H'', 8), (CHR ''I'', 9),
      (CHR ''J'', 1), (CHR ''K'', 2), (CHR ''L'', 3), (CHR ''M'', 4), (CHR ''N'', 5),
      (CHR ''O'', 6), (CHR ''P'', 7), (CHR ''Q'', 8), (CHR ''R'', 9),
      (CHR ''S'', 1), (CHR ''T'', 2), (CHR ''U'', 3), (CHR ''V'', 4), (CHR ''W'', 5),
      (CHR ''X'', 6), (CHR ''Y'', 7), (CHR ''Z'', 8)]"

definition vowels :: "char list" where
  "vowels = [CHR ''A'', CHR ''E'', CHR ''I'', CHR ''O'', CHR ''U'']"

text \<open>\<^verbatim>\<open>name.toUpperCase().replace(/[^A-Z]/g, '')\<close>\<close>

definition cleanName :: "string \<Rightarrow> string" where
  "cleanName name = filter isUpperAZ (map toUpperChar name)"

definition letterValueOr0 :: "char \<Rightarrow> nat" where
  "letterValueOr0 letter = (case letterValues letter of Some v \<Rightarrow> v | None \<Rightarrow> 0)"

fun nameLoop :: "bool \<Rightarrow> bool \<Rightarrow> string \<Rightarrow> nat \<Rightarrow> nat" where
  "nameLoop vowelsOnly consonantsOnly [] sumSoFar = sumSoFar"
| "nameLoop vowelsOnly consonantsOnly (letter # rest) sumSoFar =
     (let isVowel = (letter \<in> set vowels) in
      if vowelsOnly \<and> \<not> isVowel then nameLoop vowelsOnly consonantsOnly rest sumSoFar
      else if consonantsOnly \<and> isVowel then nameLoop vowelsOnly consonantsOnly rest sumSoFar
      else nameLoop vowelsOnly consonantsOnly rest (sumSoFar + letterValueOr0 letter))"

definition calculateNameNumber :: "string \<Rightarrow> bool \<Rightarrow> bool \<Rightarrow> nat" where
  "calculateNameNumber name vowelsOnly consonantsOnly =
     nameLoop vowelsOnly consonantsOnly (cleanName name) 0"

text \<open>
  \<^verbatim>\<open>fullName.trim().split(/\s+/)\<close> on ASCII text: the maximal runs of non-space
  characters; the empty (or all-space) name gives the single token \<^verbatim>\<open>""\<close>.
\<close>

definition isSpace :: "char \<Rightarrow> bool" where
  "isSpace c \<longleftrightarrow> (of_char c :: nat) \<in> {9, 10, 11, 12, 13, 32}"

fun splitSpaces :: "string \<Rightarrow> string \<Rightarrow> string list" where
  "splitSpaces cur [] = (if cur = [] then [] else [cur])"
| "splitSpaces cur (c # cs) =
     (if isSpace c then (if cur = [] then splitSpaces [] cs else cur # splitSpaces [] cs)
      else splitSpaces (cur @ [c]) cs)"

definition trimSplit :: "string \<Rightarrow> string list" where
  "trimSplit fullName = (case splitSpaces [] fullName of [] \<Rightarrow> [[]] | ts \<Rightarrow> ts)"

definition calculateExpressionNumber :: "string \<Rightarrow> nat" where
  "calculateExpressionNumber fullName =
     (let names = trimSplit fullName;
          totalSum = foldl (\<lambda>totalSum name.
                       totalSum + reduceToSingleDigit (calculateNameNumber name False False) True)
                     0 names
      in reduceToSingleDigit totalSum True)"

definition calculateSoulUrgeNumber :: "string \<Rightarrow> nat" where
  "calculateSoulUrgeNumber fullName = reduceToSingleDigit (calculateNameNumber fullName True False) True"

definition calculatePersonalityNumber :: "string \<Rightarrow> nat" where
  "calculatePersonalityNumber fullName = reduceToSingleDigit (calculateNameNumber fullName False True) True"

definition calculateBirthdayNumber :: "nat \<Rightarrow> nat" where
  "calculateBirthdayNumber day = reduceToSingleDigit day True"

definition calculateMaturityNumber :: "nat \<Rightarrow> nat \<Rightarrow> nat" where
  "calculateMaturityNumber lifePathNumber expressionNumber =
     reduceToSingleDigit (lifePathNumber + expressionNumber) False"

subsection \<open>Lo Shu grid, pinnacles, challenges\<close>

definition loShuPositions :: "nat list list" where
  "loShuPositions = [[4, 9, 2], [3, 5, 7], [8, 1, 6]]"

definition generateLoShuGrid :: "nat \<Rightarrow> nat \<Rightarrow> nat \<Rightarrow> nat list list" where
  "generateLoShuGrid day month year =
     (let digits = decimalDigits day @ decimalDigits month @ decimalDigits year
                   @ [calculateBirthdayNumber day] @ [calculateLifePathNumber day month year];
          digitCounts = (\<lambda>i. length (filter (\<lambda>digit. digit = i \<and> 1 \<le> digit \<and> digit \<le> 9) digits))
      in map (map (\<lambda>number. if digitCounts number > 0 then number else 0)) loShuPositions)"

definition calculatePinnacles :: "nat \<Rightarrow> nat \<Rightarrow> nat \<Rightarrow> nat list" where
  "calculatePinnacles day month year =
     (let reducedDay = reduceToSingleDigit day True;
          reducedMonth = reduceToSingleDigit month True;
          reducedYear = reduceToSingleDigit year True;
          first = reduceToSingleDigit (reducedMonth + reducedDay) True;
          second = reduceToSingleDigit (reducedDay + reducedYear) True;
          third = reduceToSingleDigit (first + second) True;
          fourth = reduceToSingleDigit (reducedMonth + reducedYear) True
      in [first, second, third, fourth])"

text \<open>\<^verbatim>\<open>Math.abs(a - b)\<close> on two non-negative integers.\<close>

definition absDiff :: "nat \<Rightarrow> nat \<Rightarrow> nat" where
  "absDiff a b = nat \<bar>int a - int b\<bar>"

definition calculateChallenges :: "nat \<Rightarrow> nat \<Rightarrow> nat \<Rightarrow> nat list" where
  "calculateChallenges day month year =
     (let reducedDay = reduceToSingleDigit day False;
          reducedMonth = reduceToSingleDigit month False;
          reducedYear = reduceToSingleDigit year False;
          first = absDiff reducedMonth reducedDay;
          second = absDiff reducedDay reducedYear;
          third = absDiff first second;
          fourth = absDiff reducedMonth reducedYear
      in [first, second, third, fourth])"

record NumerologyCalculation =
  lifePathNumber :: nat
  expressionNumber :: nat
  soulUrgeNumber :: nat
  personalityNumber :: nat
  birthdayNumber :: nat
  maturityNumber :: nat
  loShuGrid :: "nat list list"
  pinnacles :: "nat list"
  challenges :: "nat list"

definition calculateNumerology :: "string \<Rightarrow> nat \<Rightarrow> nat \<Rightarrow> nat \<Rightarrow> NumerologyCalculation" where
  "calculateNumerology fullName day month year =
     (let lifePathNumber = calculateLifePathNumber day month year;
          expressionNumber = calculateExpressionNumber fullName
      in \<lparr> lifePathNumber = lifePathNumber,
           expressionNumber = expressionNumber,
           soulUrgeNumber = calculateSoulUrgeNumber fullName,
           personalityNumber = calculatePersonalityNumber fullName,
           birthdayNumber = calculateBirthdayNumber day,
           maturityNumber = calculateMaturityNumber lifePathNumber expressionNumber,
           loShuGrid = generateLoShuGrid day month year,
           pinnacles = calculatePinnacles day month year,
           challenges = calculateChallenges day month year \<rparr>)"

section \<open>Compatibility scorer (calculateAdvancedCompatibility)\<close>

fun hiddenCountLoop :: "string \<Rightarrow> (nat \<Rightarrow> nat) \<Rightarrow> (nat \<Rightarrow> nat)" where
  "hiddenCountLoop [] digitCounts = digitCounts"
| "hiddenCountLoop (letter # rest) digitCounts =
     (let v = letterValueOr0 letter in
      if 1 \<le> v \<and> v \<le> 9 then hiddenCountLoop rest (digitCounts(v := digitCounts v + 1))
      else hiddenCountLoop rest digitCounts)"

text \<open>The scan \<^verbatim>\<open>for (digit = 1; digit <= 9; digit++)\<close> with state (maxCount, hiddenPassion).\<close>

definition hiddenScanStep :: "(nat \<Rightarrow> nat) \<Rightarrow> nat \<Rightarrow> nat \<times> nat \<Rightarrow> nat \<times> nat" where
  "hiddenScanStep digitCounts digit st =
     (case st of (maxCount, hiddenPassion) \<Rightarrow>
        if digitCounts digit > maxCount then (digitCounts digit, digit) else (maxCount, hiddenPassion))"

definition getHiddenPassionNumber :: "string \<Rightarrow> nat" where
  "getHiddenPassionNumber name =
     (let digitCounts = hiddenCountLoop (cleanName name) (\<lambda>_. 0)
      in snd (fold (hiddenScanStep digitCounts) [1, 2, 3, 4, 5, 6, 7, 8, 9] (0, 1)))"

text \<open>
  A JavaScript \<^verbatim>\<open>Set<number>\<close> is a list without repetitions, in insertion order;
  \<open>setAdd\<close> is \<^verbatim>\<open>digits.add(digit)\<close>.
\<close>

definition setAdd :: "nat list \<Rightarrow> nat \<Rightarrow> nat list" where
  "setAdd digits d = (if d \<in> set digits then digits else digits @ [d])"

definition addIfDigit :: "nat list \<Rightarrow> nat \<Rightarrow> nat list" where
  "addIfDigit digits digit = (if 1 \<le> digit \<and> digit \<le> 9 then setAdd digits digit else digits)"

definition getLoShuGridDigits :: "nat \<Rightarrow> nat \<Rightarrow> nat \<Rightarrow> nat list" where
  "getLoShuGridDigits day month year =
     (let digits = foldl (\<lambda>digits num. foldl addIfDigit digits (decimalDigits num)) [] [day, month, year];
          driver = calculateBirthdayNumber day;
          conductor = calculateLifePathNumber day month year;
          digits = addIfDigit digits driver;
          digits = addIfDigit digits conductor
      in digits)"

record Person = NumerologyCalculation +
  name :: string
  day :: nat
  month :: nat
  year :: nat

text \<open>
  The four category strings of the source (\<^verbatim>\<open>"Excellent Match ..."\<close>, \<^verbatim>\<open>"Good Match ..."\<close>,
  \<^verbatim>\<open>"Average Match ..."\<close>, \<^verbatim>\<open>"Challenging ..."\<close>, each followed by an emoji).
\<close>

datatype category = Excellent | Good | Average | Challenging

text \<open>
  The result keeps the score and the category; \<^verbatim>\<open>summary\<close> and \<^verbatim>\<open>details\<close> are
  sentences rendered from the same factor scores.
\<close>

record AdvancedCompatibilityResult =
  score :: int
  category :: category

text \<open>\<^verbatim>\<open>Math.abs(a - b) / 8\<close> on two numerology numbers, as a rational.\<close>

definition similarity :: "nat \<Rightarrow> nat \<Rightarrow> rat" where
  "similarity a b = 1 - \<bar>of_nat a - of_nat b\<bar> / 8"

definition equalBonus :: "nat \<Rightarrow> nat \<Rightarrow> rat" where
  "equalBonus a b = (if a = b then 1 / 10 else 0)"

definition finalLpScore :: "Person \<Rightarrow> Person \<Rightarrow> rat" where
  "finalLpScore person1 person2 =
     similarity (lifePathNumber person1) (lifePathNumber person2)
     + equalBonus (lifePathNumber person1) (lifePathNumber person2)"

definition finalExprScore :: "Person \<Rightarrow> Person \<Rightarrow> rat" where
  "finalExprScore person1 person2 =
     similarity (expressionNumber person1) (expressionNumber person2)
     + equalBonus (expressionNumber person1) (expressionNumber person2)"

definition finalSoulScore :: "Person \<Rightarrow> Person \<Rightarrow> rat" where
  "finalSoulScore person1 person2 =
     similarity (soulUrgeNumber person1) (soulUrgeNumber person2)
     + equalBonus (soulUrgeNumber person1) (soulUrgeNumber person2)"

definition finalPersonScore :: "Person \<Rightarrow> Person \<Rightarrow> rat" where
  "finalPersonScore person1 person2 =
     similarity (personalityNumber person1) (personalityNumber person2)
     + equalBonus (personalityNumber person1) (personalityNumber person2)"

definition scoreBday :: "Person \<Rightarrow> Person \<Rightarrow> rat" where
  "scoreBday person1 person2 = similarity (birthdayNumber person1) (birthdayNumber person2)"

definition scoreHidden :: "Person \<Rightarrow> Person \<Rightarrow> rat" where
  "scoreHidden person1 person2 =
     (let hidden1 = getHiddenPassionNumber (name person1);
          hidden2 = getHiddenPassionNumber (name person2)
      in if hidden1 = hidden2 then 1 else similarity hidden1 hidden2)"

definition scoreLo :: "Person \<Rightarrow> Person \<Rightarrow> rat" where
  "scoreLo person1 person2 =
     (let loShu1 = getLoShuGridDigits (day person1) (month person1) (year person1);
          loShu2 = getLoShuGridDigits (day person2) (month person2) (year person2);
          matchingDigits = length (filter (\<lambda>d. d \<in> set loShu2) loShu1);
          completionBonus = (if list_ex (\<lambda>d. d \<notin> set loShu2) loShu1
                                \<and> list_ex (\<lambda>d. d \<notin> set loShu1) loShu2 then 1 / 20 else 0)
      in of_nat matchingDigits / 9 + completionBonus)"

text \<open>
  \<^verbatim>\<open>xs[i]\<close> is \<^verbatim>\<open>undefined\<close> beyond the end of the array; \<^verbatim>\<open>===\<close> holds between two
  \<^verbatim>\<open>undefined\<close>s and between equal numbers.
\<close>

definition elemAt :: "nat list \<Rightarrow> nat \<Rightarrow> nat option" where
  "elemAt xs i = (if i < length xs then Some (xs ! i) else None)"

text \<open>The loop \<^verbatim>\<open>for (i = 0; i < 4; i++)\<close> with state (pinnacleBonus, challengePenalty).\<close>

definition synergyStep :: "Person \<Rightarrow> Person \<Rightarrow> nat \<Rightarrow> rat \<times> rat \<Rightarrow> rat \<times> rat" where
  "synergyStep person1 person2 i st =
     (case st of (pinnacleBonus, challengePenalty) \<Rightarrow>
        (if elemAt (pinnacles person1) i = elemAt (pinnacles person2) i
         then pinnacleBonus + 25 / 1000 else pinnacleBonus,
         if elemAt (challenges person1) i = elemAt (challenges person2) i
         then challengePenalty + 125 / 10000 else challengePenalty))"

definition synergy :: "Person \<Rightarrow> Person \<Rightarrow> rat \<times> rat" where
  "synergy person1 person2 = fold (synergyStep person1 person2) [0, 1, 2, 3] (0, 0)"

text \<open>\<^verbatim>\<open>Math.round\<close>: the nearest integer, a tie going up.\<close>

definition mathRound :: "rat \<Rightarrow> int" where
  "mathRound x = \<lfloor>x + 1 / 2\<rfloor>"

definition finalScore :: "Person \<Rightarrow> Person \<Rightarrow> rat" where
  "finalScore person1 person2 =
     (case synergy person1 person2 of (pinnacleBonus, challengePenalty) \<Rightarrow>
        max 0 (min 1
          (25 / 100 * finalLpScore person1 person2 +
           15 / 100 * finalExprScore person1 person2 +
           15 / 100 * finalSoulScore person1 person2 +
           15 / 100 * finalPersonScore person1 person2 +
           10 / 100 * scoreBday person1 person2 +
           10 / 100 * scoreHidden person1 person2 +
           5 / 100 * scoreLo person1 person2 +
           pinnacleBonus -
           challengePenalty)))"

text \<open>The \<^verbatim>\<open>if / else if\<close> chain that follows \<^verbatim>\<open>// Categorize\<close>.\<close>

definition categorize :: "int \<Rightarrow> category" where
  "categorize percentage =
     (if percentage \<ge> 80 then Excellent
      else if percentage \<ge> 65 then Good
      else if percentage \<ge> 50 then Average
      else Challenging)"

definition calculateAdvancedCompatibility :: "Person \<Rightarrow> Person \<Rightarrow> AdvancedCompatibilityResult" where
  "calculateAdvancedCompatibility person1 person2 =
     (let percentage = mathRound (finalScore person1 person2 * 100)
      in \<lparr> score = percentage, category = categorize percentage \<rparr>)"

text \<open>
  The object the compatibility route builds for each partner:
  \<^verbatim>\<open>{ ...calculateNumerology(name, day, month, year), name, day, month, year }\<close>.
\<close>

definition compatibilityInput :: "string \<Rightarrow> nat \<Rightarrow> nat \<Rightarrow> nat \<Rightarrow> Person" where
  "compatibilityInput partnerName d m y =
     NumerologyCalculation.extend (calculateNumerology partnerName d m y)
       (Person.fields partnerName d m y)"

section \<open>Simplified ephemeris (ephemeris.ts)\<close>

subsection \<open>JavaScript arithmetic and dates\<close>

text \<open>
  JavaScript numbers are exact rationals here. \<open>jsRem\<close> is the \<^verbatim>\<open>%\<close> operator on
  numbers: the remainder of the division truncated towards zero, with the sign of the
  dividend. \<open>jsRemInt\<close> is the same operator on integers.
\<close>

definition jsTrunc :: "rat \<Rightarrow> int" where
  "jsTrunc q = (if 0 \<le> q then \<lfloor>q\<rfloor> else \<lceil>q\<rceil>)"

definition jsRem :: "rat \<Rightarrow> rat \<Rightarrow> rat" where
  "jsRem x y = x - y * of_int (jsTrunc (x / y))"

definition jsRemInt :: "int \<Rightarrow> int \<Rightarrow> int" where
  "jsRemInt a b = sgn a * (\<bar>a\<bar> mod \<bar>b\<bar>)"

text \<open>
  A \<^verbatim>\<open>Date\<close> object is the record of what its getters return, in a host whose local
  time zone is UTC: full year, month (0 to 11), day of the month, hours, minutes, seconds,
  milliseconds.
\<close>

record jsDate =
  getFullYear :: int
  getMonth :: int
  getDate :: int
  getHours :: int
  getMinutes :: int
  getSeconds :: int
  getMilliseconds :: int

text \<open>Day number of a civil date (month 1 to 12) counted from 1 January 1970, and back.\<close>

definition daysFromCivil :: "int \<Rightarrow> int \<Rightarrow> int \<Rightarrow> int" where
  "daysFromCivil y m d =
     (let y' = (if m \<le> 2 then y - 1 else y);
          era = y' div 400;
          yoe = y' - era * 400;
          doy = (153 * (if m > 2 then m - 3 else m + 9) + 2) div 5 + d - 1;
          doe = yoe * 365 + yoe div 4 - yoe div 100 + doy
      in era * 146097 + doe - 719468)"

definition civilFromDays :: "int \<Rightarrow> int \<times> int \<times> int" where
  "civilFromDays z =
     (let z' = z + 719468;
          era = z' div 146097;
          doe = z' - era * 146097;
          yoe = (doe - doe div 1460 + doe div 36524 - doe div 146096) div 365;
          doy = doe - (365 * yoe + yoe div 4 - yoe div 100);
          mp = (5 * doy + 2) div 153;
          d = doy - (153 * mp + 2) div 5 + 1;
          m = (if mp < 10 then mp + 3 else mp - 9)
      in (if m \<le> 2 then yoe + era * 400 + 1 else yoe + era * 400, m, d))"

text \<open>
  \<^verbatim>\<open>new Date(year, monthIndex, day)\<close>: midnight of the given day, with months and days out
  of range carried over, and a year from 0 to 99 read as 1900 + year.
\<close>

definition newDate :: "int \<Rightarrow> int \<Rightarrow> int \<Rightarrow> jsDate" where
  "newDate y m d =
     (let yr = (if 0 \<le> y \<and> y \<le> 99 then 1900 + y else y);
          ym = yr + m div 12;
          mn = m mod 12;
          dayNumber = daysFromCivil ym (mn + 1) 1 + d - 1
      in case civilFromDays dayNumber of (cy, cm, cd) \<Rightarrow>
           \<lparr> getFullYear = cy, getMonth = cm - 1, getDate = cd, getHours = 0,
             getMinutes = 0, getSeconds = 0, getMilliseconds = 0 \<rparr>)"

text \<open>\<^verbatim>\<open>date.getTime()\<close>: milliseconds since 1 January 1970.\<close>

definition getTime :: "jsDate \<Rightarrow> int" where
  "getTime date =
     ((daysFromCivil (getFullYear date) (getMonth date + 1) (getDate date) * 24
        + getHours date) * 60 + getMinutes date) * 60000
     + getSeconds date * 1000 + getMilliseconds date"

subsection \<open>Planet positions\<close>

text \<open>The constant \<^verbatim>\<open>PLANETS\<close>, in the order of \<^verbatim>\<open>Object.entries\<close>.\<close>

definition PLANETS :: "(string \<times> int) list" where
  "PLANETS = [(''SUN'', 0), (''MOON'', 1), (''MERCURY'', 2), (''VENUS'', 3), (''MARS'', 4),
              (''JUPITER'', 5), (''SATURN'', 6), (''RAHU'', 11), (''KETU'', 12)]"

definition NAKSHATRAS :: "string list" where
  "NAKSHATRAS =
     [''Ashwini'', ''Bharani'', ''Krittika'', ''Rohini'', ''Mrigashira'', ''Ardra'',
      ''Punarvasu'', ''Pushya'', ''Ashlesha'', ''Magha'', ''Purva Phalguni'', ''Uttara Phalguni'',
      ''Hasta'', ''Chitra'', ''Swati'', ''Vishakha'', ''Anuradha'', ''Jyeshtha'',
      ''Mula'', ''Purva Ashadha'', ''Uttara Ashadha'', ''Shravana'', ''Dhanishtha'', ''Shatabhisha'',
      ''Purva Bhadrapada'', ''Uttara Bhadrapada'', ''Revati'']"

record PlanetPosition =
  longitude :: rat
  sign :: int
  degree :: rat
  nakshatra :: string
  pada :: int
  retrograde :: bool

record NatalChart =
  ascendant :: int
  houses :: "int list"
  planets :: "(string \<times> PlanetPosition) list"
  ayanamsa :: rat
  julianDay :: rat
  siderealTime :: rat

definition toJulianDay :: "jsDate \<Rightarrow> rat" where
  "toJulianDay date =
     (let a = (14 - (getMonth date + 1)) div 12;
          y = getFullYear date + 4800 - a;
          m = (getMonth date + 1) + 12 * a - 3
      in of_int (getDate date + (153 * m + 2) div 5 + 365 * y
                 + y div 4 - y div 100 + y div 400 - 32045)
         + of_int (getHours date - 12) / 24 + of_int (getMinutes date) / 1440
         + of_int (getSeconds date) / 86400)"

definition calculatePlanetLongitude :: "int \<Rightarrow> rat \<Rightarrow> rat" where
  "calculatePlanetLongitude planet jd =
     (let T = (jd - 2451545.0) / 36525.0 in
      if planet = 0 then jsRem (280.46646 + 36000.76983 * T + 0.0003032 * T * T) 360
      else if planet = 1 then jsRem (218.3165 + 481267.8813 * T - 0.0015786 * T * T) 360
      else if planet = 2 then jsRem (252.25084 + 149472.67411 * T - 0.00000536 * T * T) 360
      else if planet = 3 then jsRem (181.97973 + 58517.81539 * T + 0.00000165 * T * T) 360
      else if planet = 4 then jsRem (355.43299 + 19140.30268 * T + 0.00000261 * T * T) 360
      else if planet = 5 then jsRem (34.35148 + 3034.90567 * T - 0.00008501 * T * T) 360
      else if planet = 6 then jsRem (50.07571 + 1222.11494 * T + 0.00000021 * T * T) 360
      else 0)"

definition calculateAyanamsa :: "rat \<Rightarrow> rat" where
  "calculateAyanamsa jd =
     (let T = (jd - 2451545.0) / 36525.0 in 23.85 + 0.396 * T)"

text \<open>
  \<^verbatim>\<open>NAKSHATRAS[nakshatraIndex] || 'Unknown'\<close>: an index outside the array reads
  \<^verbatim>\<open>undefined\<close>, which \<^verbatim>\<open>||\<close> replaces.
\<close>

definition nakshatraName :: "int \<Rightarrow> string" where
  "nakshatraName nakshatraIndex =
     (if 0 \<le> nakshatraIndex \<and> nakshatraIndex < int (length NAKSHATRAS)
      then NAKSHATRAS ! nat nakshatraIndex else ''Unknown'')"

definition getNakshatraPada :: "rat \<Rightarrow> string \<times> int" where
  "getNakshatraPada moonLongitude =
     (let nakshatraIndex = \<lfloor>moonLongitude / 13.333333\<rfloor>;
          nakshatraProgress = jsRem moonLongitude 13.333333 / 13.333333;
          pada = \<lfloor>nakshatraProgress * 4\<rfloor> + 1
      in (nakshatraName nakshatraIndex, pada))"

definition toLowerChar :: "char \<Rightarrow> char" where
  "toLowerChar c =
     (if 65 \<le> (of_char c :: nat) \<and> (of_char c :: nat) \<le> 90
      then char_of ((of_char c :: nat) + 32) else c)"

text \<open>One round of the loop over \<^verbatim>\<open>Object.entries(PLANETS)\<close>.\<close>

definition planetPosition :: "rat \<Rightarrow> rat \<Rightarrow> string \<Rightarrow> int \<Rightarrow> PlanetPosition" where
  "planetPosition jd ayan planetName planetId =
     (let lng = calculatePlanetLongitude planetId jd;
          siderealLongitude = jsRem (lng - ayan + 360) 360;
          np = (if planetName = ''MOON'' then getNakshatraPada siderealLongitude else ([], 1))
      in \<lparr> longitude = siderealLongitude,
           sign = \<lfloor>siderealLongitude / 30\<rfloor>,
           degree = jsRem siderealLongitude 30,
           nakshatra = fst np, pada = snd np, retrograde = False \<rparr>)"

definition planetsLoop :: "rat \<Rightarrow> rat \<Rightarrow> (string \<times> PlanetPosition) list" where
  "planetsLoop jd ayan =
     foldl (\<lambda>acc entry.
              AList.update (map toLowerChar (fst entry))
                (planetPosition jd ayan (fst entry) (snd entry)) acc)
           [] PLANETS"

text \<open>
  The record assigned to \<^verbatim>\<open>planets.ketu\<close>: a copy of \<^verbatim>\<open>planets.rahu\<close> with longitude
  and sign replaced.
\<close>

definition ketuOf :: "PlanetPosition \<Rightarrow> PlanetPosition" where
  "ketuOf rahu = rahu\<lparr> longitude := jsRem (longitude rahu + 180) 360,
                      sign := jsRemInt (sign rahu + 6) 12 \<rparr>"

text \<open>
  \<open>computeNatalChart\<close> from the parsed \<^verbatim>\<open>birthDateTime\<close> on: the latitude is not
  used, and the text of date, time and zone only enters through the \<^verbatim>\<open>Date\<close> it
  parses to. No statement after the parse throws.
\<close>

definition computeNatalChart :: "rat \<Rightarrow> jsDate \<Rightarrow> NatalChart" where
  "computeNatalChart lon birthDateTime =
     (let jd = toJulianDay birthDateTime;
          ayan = calculateAyanamsa jd;
          ps = planetsLoop jd ayan;
          ps = (case map_of ps ''rahu'' of
                  Some rahu \<Rightarrow> AList.update ''ketu'' (ketuOf rahu) ps
                | None \<Rightarrow> ps);
          sidTime = (jd - 2451545.0) * 1.00273790935 + 280.46061837;
          ascendantLongitude = jsRem (sidTime + lon / 15) 360;
          asc = \<lfloor>jsRem (ascendantLongitude - ayan + 360) 360 / 30\<rfloor>
      in \<lparr> ascendant = asc,
           houses = map (\<lambda>i. jsRemInt (asc + i) 12) [0, 1, 2, 3, 4, 5, 6, 7, 8, 9, 10, 11],
           planets = ps, ayanamsa = ayan, julianDay = jd,
           siderealTime = jsRem sidTime 360 \<rparr>)"

subsection \<open>Divisional charts\<close>

record VargaChart =
  D9 :: "(string \<times> int) list"
  D10 :: "(string \<times> int) list"
  D12 :: "(string \<times> int) list"

text \<open>One round of the loop over \<^verbatim>\<open>Object.entries(natalChart.planets)\<close>.\<close>

definition vargaStep :: "VargaChart \<Rightarrow> string \<times> PlanetPosition \<Rightarrow> VargaChart" where
  "vargaStep vargas entry =
     (let planet = fst entry;
          position = snd entry;
          lng = longitude position;
          d9Position = \<lfloor>jsRem lng 30 / 3.333333\<rfloor>;
          d9Sign = jsRemInt (sign position * 9 + d9Position) 12;
          d10Position = \<lfloor>jsRem lng 30 / 3\<rfloor>;
          d10Sign = jsRemInt (sign position * 10 + d10Position) 12;
          d12Position = \<lfloor>jsRem lng 30 / 2.5\<rfloor>;
          d12Sign = jsRemInt (sign position * 12 + d12Position) 12
      in \<lparr> D9 = AList.update planet d9Sign (D9 vargas),
           D10 = AList.update planet d10Sign (D10 vargas),
           D12 = AList.update planet d12Sign (D12 vargas) \<rparr>)"

definition computeVargas :: "NatalChart \<Rightarrow> VargaChart" where
  "computeVargas natalChart =
     foldl vargaStep \<lparr> D9 = [], D10 = [], D12 = [] \<rparr> (planets natalChart)"

subsection \<open>Vimshottari dasa\<close>

datatype jsError = TypeError

record DasaMaha =
  planet :: string
  startDate :: jsDate
  endDate :: jsDate
  remainingYears :: rat

record DasaSub =
  subPlanet :: string
  subStartDate :: jsDate
  subEndDate :: jsDate
  remainingMonths :: rat

record VimshottariDasa =
  currentMaha :: DasaMaha
  currentSub :: DasaSub
  sequence :: "(string \<times> int) list"

definition dasaPeriods :: "(string \<times> int) list" where
  "dasaPeriods = [(''Ketu'', 7), (''Venus'', 20), (''Sun'', 6), (''Moon'', 10), (''Mars'', 7),
                  (''Rahu'', 18), (''Jupiter'', 16), (''Saturn'', 19), (''Mercury'', 17)]"

text \<open>
  \<open>computeVimshottariDasa\<close> reads the clock with \<^verbatim>\<open>new Date()\<close>; the value read is the
  parameter \<open>now\<close>. A negative \<open>startingDasaIndex\<close> reads \<^verbatim>\<open>undefined\<close> from
  \<open>dasaPeriods\<close>, and \<^verbatim>\<open>currentDasa.years\<close> then throws a TypeError. The fields
  \<^verbatim>\<open>planet\<close>, \<^verbatim>\<open>startDate\<close> and \<^verbatim>\<open>endDate\<close> of \<^verbatim>\<open>currentSub\<close> carry the prefix
  \<open>sub\<close> here.
\<close>

definition computeVimshottariDasa :: "jsDate \<Rightarrow> rat \<Rightarrow> jsError + VimshottariDasa" where
  "computeVimshottariDasa now moonLongitude =
     (let nakshatraIndex = \<lfloor>moonLongitude / 13.333333\<rfloor>;
          startingDasaIndex = jsRemInt nakshatraIndex 9
      in if startingDasaIndex < 0 then Inl TypeError
         else
           (let currentDasa = dasaPeriods ! nat startingDasaIndex;
                nextDasa = dasaPeriods ! nat (jsRemInt (startingDasaIndex + 1) 9);
                currentMahaStart = newDate (getFullYear now - 2) (getMonth now) (getDate now);
                currentMahaEnd = newDate (getFullYear currentMahaStart + snd currentDasa)
                                   (getMonth currentMahaStart) (getDate currentMahaStart);
                currentSubStart = newDate (getFullYear now) (getMonth now - 6) (getDate now);
                currentSubEnd = newDate (getFullYear currentSubStart)
                                  (getMonth currentSubStart + 18) (getDate currentSubStart)
            in Inr \<lparr> currentMaha =
                        \<lparr> planet = fst currentDasa,
                          startDate = currentMahaStart,
                          endDate = currentMahaEnd,
                          remainingYears =
                            of_int (getTime currentMahaEnd - getTime now)
                              / (365.25 * 24 * 60 * 60 * 1000) \<rparr>,
                      currentSub =
                        \<lparr> subPlanet = fst nextDasa,
                          subStartDate = currentSubStart,
                          subEndDate = currentSubEnd,
                          remainingMonths =
                            of_int (getTime currentSubEnd - getTime now)
                              / (30.44 * 24 * 60 * 60 * 1000) \<rparr>,
                      sequence = dasaPeriods \<rparr>))"

section \<open>Reference notions and concrete inputs\<close>

text \<open>
  The getters of a \<^verbatim>\<open>Date\<close> parsed from a date with a four-digit year, the only kind
  \<open>validateBirthData\<close> lets through, lie in these ranges.
\<close>

definition fourDigitDate :: "jsDate \<Rightarrow> bool" where
  "fourDigitDate d \<longleftrightarrow>
     0 \<le> getFullYear d \<and> getFullYear d \<le> 9999 \<and> 0 \<le> getMonth d \<and> getMonth d \<le> 11
     \<and> 1 \<le> getDate d \<and> getDate d \<le> 31 \<and> 0 \<le> getHours d \<and> getHours d \<le> 23
     \<and> 0 \<le> getMinutes d \<and> getMinutes d \<le> 59 \<and> 0 \<le> getSeconds d \<and> getSeconds d \<le> 59"

text \<open>
  The modulus of the specification's formulas: the remainder of the floored division,
  always in \<open>[0, y)\<close> for positive \<open>y\<close>.
\<close>

definition floorMod :: "rat \<Rightarrow> rat \<Rightarrow> rat" where
  "floorMod x y = x - y * of_int \<lfloor>x / y\<rfloor>"

text \<open>
  The varga sign as the specification words it:
  (originalSign * divisor + floor((longitude mod 30) / (30 / divisor))) mod 12.
\<close>

definition vargaSignSpec :: "int \<Rightarrow> PlanetPosition \<Rightarrow> int" where
  "vargaSignSpec divisor position =
     (sign position * divisor
      + \<lfloor>floorMod (longitude position) 30 / (30 / of_int divisor)\<rfloor>) mod 12"

text \<open>Births at 2000-01-01 12:00, 1986-03-08 03:54 and 1990-01-04 12:00; two clock readings.\<close>

definition date_2000_01_01 :: jsDate where
  "date_2000_01_01 = \<lparr> getFullYear = 2000, getMonth = 0, getDate = 1, getHours = 12,
      getMinutes = 0, getSeconds = 0, getMilliseconds = 0 \<rparr>"

definition birth_1986_03_08 :: jsDate where
  "birth_1986_03_08 = \<lparr> getFullYear = 1986, getMonth = 2, getDate = 8, getHours = 3,
      getMinutes = 54, getSeconds = 0, getMilliseconds = 0 \<rparr>"

definition birth_1990_01_04 :: jsDate where
  "birth_1990_01_04 = \<lparr> getFullYear = 1990, getMonth = 0, getDate = 4, getHours = 12,
      getMinutes = 0, getSeconds = 0, getMilliseconds = 0 \<rparr>"

definition now_2024_03_10 :: jsDate where
  "now_2024_03_10 = \<lparr> getFullYear = 2024, getMonth = 2, getDate = 10, getHours = 9,
      getMinutes = 0, getSeconds = 0, getMilliseconds = 0 \<rparr>"

definition now_2025_03_10 :: jsDate where
  "now_2025_03_10 = \<lparr> getFullYear = 2025, getMonth = 2, getDate = 10, getHours = 9,
      getMinutes = 0, getSeconds = 0, getMilliseconds = 0 \<rparr>"

section \<open>Verified properties\<close>

subsection \<open>Digit reduction\<close>





subsection \<open>Life path\<close>


subsection \<open>Compatibility scorer: helper facts\<close>

lemma compatibilityInput_sel:
  "lifePathNumber (compatibilityInput n d m y) = calculateLifePathNumber d m y"
  "birthdayNumber (compatibilityInput n d m y) = calculateBirthdayNumber d"
  "name (compatibilityInput n d m y) = n"
  "day (compatibilityInput n d m y) = d"
  "month (compatibilityInput n d m y) = m"
  "year (compatibilityInput n d m y) = y"
  "expressionNumber (compatibilityInput n d m y) = calculateExpressionNumber n"
  "soulUrgeNumber (compatibilityInput n d m y) = calculateSoulUrgeNumber n"
  "personalityNumber (compatibilityInput n d m y) = calculatePersonalityNumber n"
  "pinnacles (compatibilityInput n d m y) = calculatePinnacles d m y"
  "challenges (compatibilityInput n d m y) = calculateChallenges d m y"
  by (simp_all add: compatibilityInput_def calculateNumerology_def Let_def
      NumerologyCalculation.extend_def Person.fields_def)

text \<open>
  Concrete inputs: John Smith, born 15 May 1990, against six partners named Jo whose birth
  dates put the score on each side of the three category thresholds.
\<close>

lemma name_john:
  "calculateExpressionNumber ''John Smith'' = 8"
  "calculateSoulUrgeNumber ''John Smith'' = 6"
  "calculatePersonalityNumber ''John Smith'' = 11"
  "getHiddenPassionNumber ''John Smith'' = 1"
  by code_simp+

lemma name_jo:
  "calculateExpressionNumber ''Jo'' = 7"
  "calculateSoulUrgeNumber ''Jo'' = 6"
  "calculatePersonalityNumber ''Jo'' = 1"
  "getHiddenPassionNumber ''Jo'' = 1"
  by code_simp+

lemma date_15_5_1990:
  "calculateLifePathNumber 15 5 1990 = 3"
  "calculateBirthdayNumber 15 = 6"
  "getLoShuGridDigits 15 5 1990 = [1, 5, 9, 6, 3]"
  "calculatePinnacles 15 5 1990 = [11, 7, 9, 6]"
  "calculateChallenges 15 5 1990 = [1, 5, 4, 4]"
  by code_simp+

lemma date_6_7_1943:
  "calculateLifePathNumber 6 7 1943 = 3"
  "calculateBirthdayNumber 6 = 6"
  "getLoShuGridDigits 6 7 1943 = [6, 7, 1, 9, 4, 3]"
  "calculatePinnacles 6 7 1943 = [4, 5, 9, 6]"
  "calculateChallenges 6 7 1943 = [1, 2, 1, 1]"
  by code_simp+

lemma date_15_10_1940:
  "calculateLifePathNumber 15 10 1940 = 3"
  "calculateBirthdayNumber 15 = 6"
  "getLoShuGridDigits 15 10 1940 = [1, 5, 9, 4, 6, 3]"
  "calculatePinnacles 15 10 1940 = [7, 11, 9, 6]"
  "calculateChallenges 15 10 1940 = [5, 1, 4, 4]"
  by code_simp+

lemma date_7_2_1940:
  "calculateLifePathNumber 7 2 1940 = 5"
  "calculateBirthdayNumber 7 = 7"
  "getLoShuGridDigits 7 2 1940 = [7, 2, 1, 9, 4, 5]"
  "calculatePinnacles 7 2 1940 = [9, 3, 3, 7]"
  "calculateChallenges 7 2 1940 = [5, 2, 3, 3]"
  by code_simp+

lemma date_5_4_1940:
  "calculateLifePathNumber 5 4 1940 = 5"
  "calculateBirthdayNumber 5 = 5"
  "getLoShuGridDigits 5 4 1940 = [5, 4, 1, 9]"
  "calculatePinnacles 5 4 1940 = [9, 1, 1, 9]"
  "calculateChallenges 5 4 1940 = [1, 0, 1, 1]"
  by code_simp+

lemma date_11_2_1940:
  "calculateLifePathNumber 11 2 1940 = 9"
  "calculateBirthdayNumber 11 = 11"
  "getLoShuGridDigits 11 2 1940 = [1, 2, 9, 4]"
  "calculatePinnacles 11 2 1940 = [4, 7, 11, 7]"
  "calculateChallenges 11 2 1940 = [0, 3, 3, 3]"
  by code_simp+

lemma date_22_4_1940:
  "calculateLifePathNumber 22 4 1940 = 4"
  "calculateBirthdayNumber 22 = 22"
  "getLoShuGridDigits 22 4 1940 = [2, 4, 1, 9]"
  "calculatePinnacles 22 4 1940 = [8, 9, 8, 9]"
  "calculateChallenges 22 4 1940 = [0, 1, 1, 1]"
  by code_simp+

lemma lo_80:
  "scoreLo (compatibilityInput ''John Smith'' 15 5 1990) (compatibilityInput ''Jo'' 6 7 1943) = 89 / 180"
  by (simp add: scoreLo_def Let_def compatibilityInput_sel date_15_5_1990 date_6_7_1943)

lemma synergy_80:
  "synergy (compatibilityInput ''John Smith'' 15 5 1990) (compatibilityInput ''Jo'' 6 7 1943) = (1 / 20, 1 / 80)"
  by (simp add: synergy_def synergyStep_def elemAt_def compatibilityInput_sel
      date_15_5_1990 date_6_7_1943)

lemma finalScore_80:
  "finalScore (compatibilityInput ''John Smith'' 15 5 1990) (compatibilityInput ''Jo'' 6 7 1943) = 5731 / 7200"
  by (simp add: finalScore_def lo_80 synergy_80 finalLpScore_def finalExprScore_def
      finalSoulScore_def finalPersonScore_def scoreBday_def scoreHidden_def similarity_def
      equalBonus_def compatibilityInput_sel name_john name_jo date_15_5_1990 date_6_7_1943)

lemma score_80:
  "score (calculateAdvancedCompatibility (compatibilityInput ''John Smith'' 15 5 1990) (compatibilityInput ''Jo'' 6 7 1943)) = 80"
proof -
  have "\<lfloor>(5731 / 7200 :: rat) * 100 + 1 / 2\<rfloor> = 80"
    by (rule floor_unique) simp_all
  then show ?thesis
    by (simp add: calculateAdvancedCompatibility_def Let_def mathRound_def finalScore_80)
qed

lemma lo_79:
  "scoreLo (compatibilityInput ''John Smith'' 15 5 1990) (compatibilityInput ''Jo'' 15 10 1940) = 5 / 9"
  by (simp add: scoreLo_def Let_def compatibilityInput_sel date_15_5_1990 date_15_10_1940)

lemma synergy_79:
  "synergy (compatibilityInput ''John Smith'' 15 5 1990) (compatibilityInput ''Jo'' 15 10 1940) = (1 / 20, 1 / 40)"
  by (simp add: synergy_def synergyStep_def elemAt_def compatibilityInput_sel
      date_15_5_1990 date_15_10_1940)

lemma finalScore_79:
  "finalScore (compatibilityInput ''John Smith'' 15 5 1990) (compatibilityInput ''Jo'' 15 10 1940) = 5663 / 7200"
  by (simp add: finalScore_def lo_79 synergy_79 finalLpScore_def finalExprScore_def
      finalSoulScore_def finalPersonScore_def scoreBday_def scoreHidden_def similarity_def
      equalBonus_def compatibilityInput_sel name_john name_jo date_15_5_1990 date_15_10_1940)

lemma score_79:
  "score (calculateAdvancedCompatibility (compatibilityInput ''John Smith'' 15 5 1990) (compatibilityInput ''Jo'' 15 10 1940)) = 79"
proof -
  have "\<lfloor>(5663 / 7200 :: rat) * 100 + 1 / 2\<rfloor> = 79"
    by (rule floor_unique) simp_all
  then show ?thesis
    by (simp add: calculateAdvancedCompatibility_def Let_def mathRound_def finalScore_79)
qed

lemma lo_65:
  "scoreLo (compatibilityInput ''John Smith'' 15 5 1990) (compatibilityInput ''Jo'' 7 2 1940) = 23 / 60"
  by (simp add: scoreLo_def Let_def compatibilityInput_sel date_15_5_1990 date_7_2_1940)

lemma synergy_65:
  "synergy (compatibilityInput ''John Smith'' 15 5 1990) (compatibilityInput ''Jo'' 7 2 1940) = (0, 0)"
  by (simp add: synergy_def synergyStep_def elemAt_def compatibilityInput_sel
      date_15_5_1990 date_7_2_1940)

lemma finalScore_65:
  "finalScore (compatibilityInput ''John Smith'' 15 5 1990) (compatibilityInput ''Jo'' 7 2 1940) = 1567 / 2400"
  by (simp add: finalScore_def lo_65 synergy_65 finalLpScore_def finalExprScore_def
      finalSoulScore_def finalPersonScore_def scoreBday_def scoreHidden_def similarity_def
      equalBonus_def compatibilityInput_sel name_john name_jo date_15_5_1990 date_7_2_1940)

lemma score_65:
  "score (calculateAdvancedCompatibility (compatibilityInput ''John Smith'' 15 5 1990) (compatibilityInput ''Jo'' 7 2 1940)) = 65"
proof -
  have "\<lfloor>(1567 / 2400 :: rat) * 100 + 1 / 2\<rfloor> = 65"
    by (rule floor_unique) simp_all
  then show ?thesis
    by (simp add: calculateAdvancedCompatibility_def Let_def mathRound_def finalScore_65)
qed

lemma lo_64:
  "scoreLo (compatibilityInput ''John Smith'' 15 5 1990) (compatibilityInput ''Jo'' 5 4 1940) = 23 / 60"
  by (simp add: scoreLo_def Let_def compatibilityInput_sel date_15_5_1990 date_5_4_1940)

lemma synergy_64:
  "synergy (compatibilityInput ''John Smith'' 15 5 1990) (compatibilityInput ''Jo'' 5 4 1940) = (0, 1 / 80)"
  by (simp add: synergy_def synergyStep_def elemAt_def compatibilityInput_sel
      date_15_5_1990 date_5_4_1940)

lemma finalScore_64:
  "finalScore (compatibilityInput ''John Smith'' 15 5 1990) (compatibilityInput ''Jo'' 5 4 1940) = 1537 / 2400"
  by (simp add: finalScore_def lo_64 synergy_64 finalLpScore_def finalExprScore_def
      finalSoulScore_def finalPersonScore_def scoreBday_def scoreHidden_def similarity_def
      equalBonus_def compatibilityInput_sel name_john name_jo date_15_5_1990 date_5_4_1940)

lemma score_64:
  "score (calculateAdvancedCompatibility (compatibilityInput ''John Smith'' 15 5 1990) (compatibilityInput ''Jo'' 5 4 1940)) = 64"
proof -
  have "\<lfloor>(1537 / 2400 :: rat) * 100 + 1 / 2\<rfloor> = 64"
    by (rule floor_unique) simp_all
  then show ?thesis
    by (simp add: calculateAdvancedCompatibility_def Let_def mathRound_def finalScore_64)
qed

lemma lo_50:
  "scoreLo (compatibilityInput ''John Smith'' 15 5 1990) (compatibilityInput ''Jo'' 11 2 1940) = 49 / 180"
  by (simp add: scoreLo_def Let_def compatibilityInput_sel date_15_5_1990 date_11_2_1940)

lemma synergy_50:
  "synergy (compatibilityInput ''John Smith'' 15 5 1990) (compatibilityInput ''Jo'' 11 2 1940) = (1 / 40, 0)"
  by (simp add: synergy_def synergyStep_def elemAt_def compatibilityInput_sel
      date_15_5_1990 date_11_2_1940)

lemma finalScore_50:
  "finalScore (compatibilityInput ''John Smith'' 15 5 1990) (compatibilityInput ''Jo'' 11 2 1940) = 3581 / 7200"
  by (simp add: finalScore_def lo_50 synergy_50 finalLpScore_def finalExprScore_def
      finalSoulScore_def finalPersonScore_def scoreBday_def scoreHidden_def similarity_def
      equalBonus_def compatibilityInput_sel name_john name_jo date_15_5_1990 date_11_2_1940)

lemma score_50:
  "score (calculateAdvancedCompatibility (compatibilityInput ''John Smith'' 15 5 1990) (compatibilityInput ''Jo'' 11 2 1940)) = 50"
proof -
  have "\<lfloor>(3581 / 7200 :: rat) * 100 + 1 / 2\<rfloor> = 50"
    by (rule floor_unique) simp_all
  then show ?thesis
    by (simp add: calculateAdvancedCompatibility_def Let_def mathRound_def finalScore_50)
qed

lemma lo_49:
  "scoreLo (compatibilityInput ''John Smith'' 15 5 1990) (compatibilityInput ''Jo'' 22 4 1940) = 49 / 180"
  by (simp add: scoreLo_def Let_def compatibilityInput_sel date_15_5_1990 date_22_4_1940)

lemma synergy_49:
  "synergy (compatibilityInput ''John Smith'' 15 5 1990) (compatibilityInput ''Jo'' 22 4 1940) = (0, 0)"
  by (simp add: synergy_def synergyStep_def elemAt_def compatibilityInput_sel
      date_15_5_1990 date_22_4_1940)

lemma finalScore_49:
  "finalScore (compatibilityInput ''John Smith'' 15 5 1990) (compatibilityInput ''Jo'' 22 4 1940) = 221 / 450"
  by (simp add: finalScore_def lo_49 synergy_49 finalLpScore_def finalExprScore_def
      finalSoulScore_def finalPersonScore_def scoreBday_def scoreHidden_def similarity_def
      equalBonus_def compatibilityInput_sel name_john name_jo date_15_5_1990 date_22_4_1940)

lemma score_49:
  "score (calculateAdvancedCompatibility (compatibilityInput ''John Smith'' 15 5 1990) (compatibilityInput ''Jo'' 22 4 1940)) = 49"
proof -
  have "\<lfloor>(221 / 450 :: rat) * 100 + 1 / 2\<rfloor> = 49"
    by (rule floor_unique) simp_all
  then show ?thesis
    by (simp add: calculateAdvancedCompatibility_def Let_def mathRound_def finalScore_49)
qed


lemma date_2_1_2000: "calculateBirthdayNumber 2 = 2"
  by code_simp

lemma date_29_1_2000: "calculateBirthdayNumber 29 = 11"
  by code_simp

lemma distinct_setAdd: "distinct xs \<Longrightarrow> distinct (setAdd xs d)"
  by (simp add: setAdd_def)

lemma distinct_addIfDigit: "distinct xs \<Longrightarrow> distinct (addIfDigit xs d)"
  by (simp add: addIfDigit_def distinct_setAdd)

lemma distinct_foldl_addIfDigit: "distinct xs \<Longrightarrow> distinct (foldl addIfDigit xs ds)"
  by (induction ds arbitrary: xs) (simp_all add: distinct_addIfDigit)

lemma distinct_foldl_nums:
  "distinct xs \<Longrightarrow> distinct (foldl (\<lambda>digits num. foldl addIfDigit digits (decimalDigits num)) xs nums)"
  by (induction nums arbitrary: xs) (simp_all add: distinct_foldl_addIfDigit)

lemma distinct_getLoShuGridDigits: "distinct (getLoShuGridDigits d m y)"
  unfolding getLoShuGridDigits_def Let_def
  by (intro distinct_addIfDigit distinct_foldl_nums) simp

lemma matching_card:
  assumes "distinct xs"
  shows "length (filter (\<lambda>d. d \<in> set ys) xs) = card (set xs \<inter> set ys)"
proof -
  have "distinct (filter (\<lambda>d. d \<in> set ys) xs)" using assms by simp
  then have "length (filter (\<lambda>d. d \<in> set ys) xs) = card (set (filter (\<lambda>d. d \<in> set ys) xs))"
    by (rule distinct_card [symmetric])
  also have "set (filter (\<lambda>d. d \<in> set ys) xs) = set xs \<inter> set ys" by auto
  finally show ?thesis .
qed

lemma similarity_sym: "similarity a b = similarity b a"
  by (simp add: similarity_def abs_minus_commute)

lemma equalBonus_sym: "equalBonus a b = equalBonus b a"
  by (simp add: equalBonus_def eq_commute)

lemma scoreHidden_sym: "scoreHidden p1 p2 = scoreHidden p2 p1"
  by (simp add: scoreHidden_def Let_def similarity_sym [of "getHiddenPassionNumber (name p1)"])

lemma scoreLo_sym: "scoreLo p1 p2 = scoreLo p2 p1"
proof -
  let ?l1 = "getLoShuGridDigits (day p1) (month p1) (year p1)"
  let ?l2 = "getLoShuGridDigits (day p2) (month p2) (year p2)"
  have "length (filter (\<lambda>d. d \<in> set ?l2) ?l1) = length (filter (\<lambda>d. d \<in> set ?l1) ?l2)"
    by (simp add: matching_card distinct_getLoShuGridDigits Int_commute)
  then show ?thesis by (simp add: scoreLo_def Let_def conj_commute)
qed

lemma synergyStep_sym: "synergyStep p1 p2 = synergyStep p2 p1"
  by (intro ext) (simp add: synergyStep_def eq_commute split: prod.splits)

lemma synergy_sym: "synergy p1 p2 = synergy p2 p1"
  by (simp only: synergy_def synergyStep_sym [of p1 p2])

lemma finalScore_sym: "finalScore p1 p2 = finalScore p2 p1"
  unfolding finalScore_def finalLpScore_def finalExprScore_def finalSoulScore_def
    finalPersonScore_def scoreBday_def
  by (simp only: synergy_sym [of p1 p2] scoreHidden_sym [of p1 p2] scoreLo_sym [of p1 p2]
      similarity_sym [of "lifePathNumber p1"] equalBonus_sym [of "lifePathNumber p1"]
      similarity_sym [of "expressionNumber p1"] equalBonus_sym [of "expressionNumber p1"]
      similarity_sym [of "soulUrgeNumber p1"] equalBonus_sym [of "soulUrgeNumber p1"]
      similarity_sym [of "personalityNumber p1"] equalBonus_sym [of "personalityNumber p1"]
      similarity_sym [of "birthdayNumber p1"])




lemma factor_formula:
  "similarity a b + equalBonus a b = 1 - \<bar>of_nat a - of_nat b\<bar> / 8 + (if a = b then 1 / 10 else 0)"
  by (simp add: similarity_def equalBonus_def)

lemma abs_of_nat_diff: "\<bar>(of_nat a :: rat) - of_nat b\<bar> = of_nat (absDiff a b)"
  by (simp add: absDiff_def of_nat_diff abs_if)

lemma factor_in_unit:
  "(0 \<le> similarity a b + equalBonus a b \<and> similarity a b + equalBonus a b \<le> 1)
     \<longleftrightarrow> (a \<noteq> b \<and> absDiff a b \<le> 8)"
proof (cases "a = b")
  case True
  then show ?thesis by (simp add: similarity_def equalBonus_def)
next
  case False
  then show ?thesis
    by (simp add: similarity_def equalBonus_def abs_of_nat_diff)
qed

lemma similarity_le_1: "similarity a b \<le> 1"
  by (simp add: similarity_def)

lemma similarity_nonneg: "0 \<le> similarity a b \<longleftrightarrow> absDiff a b \<le> 8"
  by (simp add: similarity_def abs_of_nat_diff)

subsection \<open>Compatibility scorer: score, factors, symmetry, category\<close>



text \<open>
  Claim C3, as the code has it. Each of the five factor scores is 1 - |a - b| / 8 on the two
  persons' numbers, plus 0.1 exactly when the numbers are equal for life path, expression,
  soul urge and personality (not for birthday). A life path, expression, soul urge or
  personality score lies in [0, 1] exactly when the two numbers differ, by at most 8: it is
  1.1 for equal numbers and negative for numbers more than 8 apart. The birthday score is at
  most 1, and non-negative exactly when the numbers are at most 8 apart.
\<close>

theorem factor_scores:
  "finalLpScore p1 p2 = 1 - \<bar>of_nat (lifePathNumber p1) - of_nat (lifePathNumber p2)\<bar> / 8
       + (if lifePathNumber p1 = lifePathNumber p2 then 1 / 10 else 0)
   \<and> finalExprScore p1 p2 = 1 - \<bar>of_nat (expressionNumber p1) - of_nat (expressionNumber p2)\<bar> / 8
       + (if expressionNumber p1 = expressionNumber p2 then 1 / 10 else 0)
   \<and> finalSoulScore p1 p2 = 1 - \<bar>of_nat (soulUrgeNumber p1) - of_nat (soulUrgeNumber p2)\<bar> / 8
       + (if soulUrgeNumber p1 = soulUrgeNumber p2 then 1 / 10 else 0)
   \<and> finalPersonScore p1 p2 = 1 - \<bar>of_nat (personalityNumber p1) - of_nat (personalityNumber p2)\<bar> / 8
       + (if personalityNumber p1 = personalityNumber p2 then 1 / 10 else 0)
   \<and> scoreBday p1 p2 = 1 - \<bar>of_nat (birthdayNumber p1) - of_nat (birthdayNumber p2)\<bar> / 8
   \<and> ((0 \<le> finalLpScore p1 p2 \<and> finalLpScore p1 p2 \<le> 1) \<longleftrightarrow>
        (lifePathNumber p1 \<noteq> lifePathNumber p2
         \<and> absDiff (lifePathNumber p1) (lifePathNumber p2) \<le> 8))
   \<and> ((0 \<le> finalExprScore p1 p2 \<and> finalExprScore p1 p2 \<le> 1) \<longleftrightarrow>
        (expressionNumber p1 \<noteq> expressionNumber p2
         \<and> absDiff (expressionNumber p1) (expressionNumber p2) \<le> 8))
   \<and> ((0 \<le> finalSoulScore p1 p2 \<and> finalSoulScore p1 p2 \<le> 1) \<longleftrightarrow>
        (soulUrgeNumber p1 \<noteq> soulUrgeNumber p2
         \<and> absDiff (soulUrgeNumber p1) (soulUrgeNumber p2) \<le> 8))
   \<and> ((0 \<le> finalPersonScore p1 p2 \<and> finalPersonScore p1 p2 \<le> 1) \<longleftrightarrow>
        (personalityNumber p1 \<noteq> personalityNumber p2
         \<and> absDiff (personalityNumber p1) (personalityNumber p2) \<le> 8))
   \<and> scoreBday p1 p2 \<le> 1
   \<and> (0 \<le> scoreBday p1 p2 \<longleftrightarrow> absDiff (birthdayNumber p1) (birthdayNumber p2) \<le> 8)"
  unfolding finalLpScore_def finalExprScore_def finalSoulScore_def finalPersonScore_def
    scoreBday_def
  by (intro conjI factor_formula factor_in_unit similarity_le_1 similarity_nonneg)
     (simp add: similarity_def)

theorem factor_scores_witness:
  "finalLpScore (compatibilityInput ''John Smith'' 15 5 1990) (compatibilityInput ''Jo'' 22 4 1940) = 7 / 8
   \<and> lifePathNumber (compatibilityInput ''John Smith'' 15 5 1990) = 3
   \<and> lifePathNumber (compatibilityInput ''Jo'' 22 4 1940) = 4
   \<and> scoreBday (compatibilityInput ''John Smith'' 15 5 1990) (compatibilityInput ''Jo'' 6 7 1943) = 1
   \<and> birthdayNumber (compatibilityInput ''John Smith'' 15 5 1990) = 6
   \<and> birthdayNumber (compatibilityInput ''Jo'' 6 7 1943) = 6"
proof -
  note f = factor_scores [of "compatibilityInput ''John Smith'' 15 5 1990"
        "compatibilityInput ''Jo'' 22 4 1940"]
  note g = factor_scores [of "compatibilityInput ''John Smith'' 15 5 1990"
        "compatibilityInput ''Jo'' 6 7 1943"]
  have lp: "finalLpScore (compatibilityInput ''John Smith'' 15 5 1990)
              (compatibilityInput ''Jo'' 22 4 1940) = 7 / 8"
    using f [THEN conjunct1] by (simp add: compatibilityInput_sel date_15_5_1990 date_22_4_1940)
  have bd: "scoreBday (compatibilityInput ''John Smith'' 15 5 1990)
              (compatibilityInput ''Jo'' 6 7 1943) = 1"
    using g [THEN conjunct2, THEN conjunct2, THEN conjunct2, THEN conjunct2, THEN conjunct1]
    by (simp add: compatibilityInput_sel date_15_5_1990 date_6_7_1943)
  show ?thesis using lp bd
    by (simp add: compatibilityInput_sel date_15_5_1990 date_22_4_1940 date_6_7_1943)
qed

text \<open>
  Claim C3 as stated puts every factor score in [0, 1]. Birthdays on the 2nd and the 29th
  have birthday numbers 2 and 11 and birthday score -1/8; two persons with the same life
  path number have life path score 1.1.
\<close>

theorem factor_scores_counterexample:
  "scoreBday (compatibilityInput ''A'' 2 1 2000) (compatibilityInput ''A'' 29 1 2000) = - (1 / 8)
   \<and> finalLpScore (compatibilityInput ''A'' 2 1 2000) (compatibilityInput ''A'' 2 1 2000) = 11 / 10"
  by (simp add: scoreBday_def finalLpScore_def similarity_def equalBonus_def
      compatibilityInput_sel date_2_1_2000 date_29_1_2000)

text \<open>
  Claim C4. Swapping the two persons leaves the score and the category unchanged.
\<close>

theorem compatibility_symmetric:
  "score (calculateAdvancedCompatibility p1 p2) = score (calculateAdvancedCompatibility p2 p1)
   \<and> category (calculateAdvancedCompatibility p1 p2) = category (calculateAdvancedCompatibility p2 p1)"
  by (simp add: calculateAdvancedCompatibility_def Let_def finalScore_sym [of p1 p2])

text \<open>
  Claim C5. The category is a function of the integer score alone: 80 and above is
  Excellent, 65 to 79 is Good, 50 to 64 is Average, 49 and below is Challenging.
\<close>

theorem category_thresholds:
  "category (calculateAdvancedCompatibility p1 p2) = categorize (score (calculateAdvancedCompatibility p1 p2))
   \<and> (80 \<le> s \<longrightarrow> categorize s = Excellent)
   \<and> (65 \<le> s \<and> s \<le> 79 \<longrightarrow> categorize s = Good)
   \<and> (50 \<le> s \<and> s \<le> 64 \<longrightarrow> categorize s = Average)
   \<and> (s \<le> 49 \<longrightarrow> categorize s = Challenging)"
  by (simp add: calculateAdvancedCompatibility_def Let_def categorize_def)

theorem category_thresholds_witness:
  "score (calculateAdvancedCompatibility (compatibilityInput ''John Smith'' 15 5 1990)
       (compatibilityInput ''Jo'' 6 7 1943)) = 80
   \<and> category (calculateAdvancedCompatibility (compatibilityInput ''John Smith'' 15 5 1990)
       (compatibilityInput ''Jo'' 6 7 1943)) = Excellent
   \<and> score (calculateAdvancedCompatibility (compatibilityInput ''John Smith'' 15 5 1990)
       (compatibilityInput ''Jo'' 15 10 1940)) = 79
   \<and> category (calculateAdvancedCompatibility (compatibilityInput ''John Smith'' 15 5 1990)
       (compatibilityInput ''Jo'' 15 10 1940)) = Good
   \<and> score (calculateAdvancedCompatibility (compatibilityInput ''John Smith'' 15 5 1990)
       (compatibilityInput ''Jo'' 7 2 1940)) = 65
   \<and> category (calculateAdvancedCompatibility (compatibilityInput ''John Smith'' 15 5 1990)
       (compatibilityInput ''Jo'' 7 2 1940)) = Good
   \<and> score (calculateAdvancedCompatibility (compatibilityInput ''John Smith'' 15 5 1990)
       (compatibilityInput ''Jo'' 5 4 1940)) = 64
   \<and> category (calculateAdvancedCompatibility (compatibilityInput ''John Smith'' 15 5 1990)
       (compatibilityInput ''Jo'' 5 4 1940)) = Average
   \<and> score (calculateAdvancedCompatibility (compatibilityInput ''John Smith'' 15 5 1990)
       (compatibilityInput ''Jo'' 11 2 1940)) = 50
   \<and> category (calculateAdvancedCompatibility (compatibilityInput ''John Smith'' 15 5 1990)
       (compatibilityInput ''Jo'' 11 2 1940)) = Average
   \<and> score (calculateAdvancedCompatibility (compatibilityInput ''John Smith'' 15 5 1990)
       (compatibilityInput ''Jo'' 22 4 1940)) = 49
   \<and> category (calculateAdvancedCompatibility (compatibilityInput ''John Smith'' 15 5 1990)
       (compatibilityInput ''Jo'' 22 4 1940)) = Challenging"
  using category_thresholds [of "compatibilityInput ''John Smith'' 15 5 1990"
      "compatibilityInput ''Jo'' 6 7 1943" 80]
    category_thresholds [of "compatibilityInput ''John Smith'' 15 5 1990"
      "compatibilityInput ''Jo'' 15 10 1940" 79]
    category_thresholds [of "compatibilityInput ''John Smith'' 15 5 1990"
      "compatibilityInput ''Jo'' 7 2 1940" 65]
    category_thresholds [of "compatibilityInput ''John Smith'' 15 5 1990"
      "compatibilityInput ''Jo'' 5 4 1940" 64]
    category_thresholds [of "compatibilityInput ''John Smith'' 15 5 1990"
      "compatibilityInput ''Jo'' 11 2 1940" 50]
    category_thresholds [of "compatibilityInput ''John Smith'' 15 5 1990"
      "compatibilityInput ''Jo'' 22 4 1940" 49]
  by (simp add: score_80 score_79 score_65 score_64 score_50 score_49)

subsection \<open>Natal chart: structure\<close>

lemma lower_names:
  "toLowerChar CHR ''S'' = CHR ''s''"
  "toLowerChar CHR ''U'' = CHR ''u''"
  "toLowerChar CHR ''N'' = CHR ''n''"
  "toLowerChar CHR ''M'' = CHR ''m''"
  "toLowerChar CHR ''O'' = CHR ''o''"
  "toLowerChar CHR ''E'' = CHR ''e''"
  "toLowerChar CHR ''R'' = CHR ''r''"
  "toLowerChar CHR ''C'' = CHR ''c''"
  "toLowerChar CHR ''Y'' = CHR ''y''"
  "toLowerChar CHR ''V'' = CHR ''v''"
  "toLowerChar CHR ''A'' = CHR ''a''"
  "toLowerChar CHR ''J'' = CHR ''j''"
  "toLowerChar CHR ''P'' = CHR ''p''"
  "toLowerChar CHR ''I'' = CHR ''i''"
  "toLowerChar CHR ''T'' = CHR ''t''"
  "toLowerChar CHR ''H'' = CHR ''h''"
  "toLowerChar CHR ''K'' = CHR ''k''"
  by code_simp+

lemma planetsLoop_eq:
  "planetsLoop jd ay =
     [(''sun'', planetPosition jd ay ''SUN'' 0), (''moon'', planetPosition jd ay ''MOON'' 1),
      (''mercury'', planetPosition jd ay ''MERCURY'' 2), (''venus'', planetPosition jd ay ''VENUS'' 3),
      (''mars'', planetPosition jd ay ''MARS'' 4), (''jupiter'', planetPosition jd ay ''JUPITER'' 5),
      (''saturn'', planetPosition jd ay ''SATURN'' 6), (''rahu'', planetPosition jd ay ''RAHU'' 11),
      (''ketu'', planetPosition jd ay ''KETU'' 12)]"
  by (simp add: planetsLoop_def PLANETS_def lower_names)

lemma chart_planets:
  "planets (computeNatalChart lon d) =
     (let jd = toJulianDay d; ay = calculateAyanamsa jd in
     [(''sun'', planetPosition jd ay ''SUN'' 0), (''moon'', planetPosition jd ay ''MOON'' 1),
      (''mercury'', planetPosition jd ay ''MERCURY'' 2), (''venus'', planetPosition jd ay ''VENUS'' 3),
      (''mars'', planetPosition jd ay ''MARS'' 4), (''jupiter'', planetPosition jd ay ''JUPITER'' 5),
      (''saturn'', planetPosition jd ay ''SATURN'' 6), (''rahu'', planetPosition jd ay ''RAHU'' 11),
      (''ketu'', ketuOf (planetPosition jd ay ''RAHU'' 11))])"
  by (simp add: computeNatalChart_def Let_def planetsLoop_eq)

lemma rahu_position:
  "planetPosition jd ay ''RAHU'' 11 =
     \<lparr> longitude = jsRem (360 - ay) 360, sign = \<lfloor>jsRem (360 - ay) 360 / 30\<rfloor>,
       degree = jsRem (jsRem (360 - ay) 360) 30, nakshatra = [], pada = 1, retrograde = False \<rparr>"
  by (simp add: planetPosition_def calculatePlanetLongitude_def Let_def)

lemma jsRem_nonneg: "0 \<le> x \<Longrightarrow> 0 < y \<Longrightarrow> jsRem x y = floorMod x y"
  by (simp add: jsRem_def jsTrunc_def floorMod_def)

lemma floorMod_range:
  assumes "0 < y"
  shows "0 \<le> floorMod x y \<and> floorMod x y < y"
proof -
  have a: "of_int \<lfloor>x / y\<rfloor> \<le> x / y" by simp
  have b: "x / y < of_int \<lfloor>x / y\<rfloor> + 1" by linarith
  from a assms have "of_int \<lfloor>x / y\<rfloor> * y \<le> x"
    using pos_le_divide_eq [of y "of_int \<lfloor>x / y\<rfloor>" x] by blast
  moreover from b assms have "x < (of_int \<lfloor>x / y\<rfloor> + 1) * y"
    using pos_divide_less_eq [of y x "of_int \<lfloor>x / y\<rfloor> + 1"] by blast
  ultimately show ?thesis by (simp add: floorMod_def algebra_simps)
qed

lemma jsRemInt_nonneg: "0 \<le> a \<Longrightarrow> 0 < b \<Longrightarrow> jsRemInt a b = a mod b"
  by (cases "a = 0") (simp_all add: jsRemInt_def)

lemma julian_int_upper:
  fixes Y M Dd :: int
  assumes "Y \<le> 9999" "0 \<le> M" "M \<le> 11" "Dd \<le> 31" "0 \<le> Y"
  shows "(let a = (14 - (M + 1)) div 12; y = Y + 4800 - a; m = (M + 1) + 12 * a - 3
          in Dd + (153 * m + 2) div 5 + 365 * y + y div 4 - y div 100 + y div 400 - 32045)
         \<le> 5400000"
proof -
  define a where "a = (14 - (M + 1)) div 12"
  define y where "y = Y + 4800 - a"
  define m where "m = (M + 1) + 12 * a - 3"
  have a0: "0 \<le> a"
    using zdiv_mono1 [of 0 "14 - (M + 1)" 12] assms unfolding a_def by simp
  have a1: "a \<le> 1"
    using zdiv_mono1 [of "14 - (M + 1)" 13 12] assms unfolding a_def by simp
  have y0: "0 \<le> y" and y1: "y \<le> 14799" using assms a0 a1 unfolding y_def by linarith+
  have "m \<le> 21" using assms(3) a1 unfolding m_def by simp
  then have m: "153 * m + 2 \<le> 3215" by simp
  have "(153 * m + 2) div 5 \<le> 643"
    using zdiv_mono1 [OF m, of 5] by simp
  moreover have "y div 4 \<le> 3699"
    using zdiv_mono1 [OF y1, of 4] by simp
  moreover have "0 \<le> y div 100"
    using zdiv_mono1 [OF y0, of 100] by simp
  moreover have "y div 400 \<le> 36"
    using zdiv_mono1 [OF y1, of 400] by simp
  ultimately have "Dd + (153 * m + 2) div 5 + 365 * y + y div 4 - y div 100 + y div 400 - 32045 \<le> 5400000"
    using y0 y1 assms by linarith
  then show ?thesis unfolding a_def y_def m_def Let_def .
qed

lemma toJulianDay_upper:
  assumes "fourDigitDate d"
  shows "toJulianDay d \<le> 5400003"
proof -
  let ?N = "(let a = (14 - (getMonth d + 1)) div 12; y = getFullYear d + 4800 - a;
                 m = (getMonth d + 1) + 12 * a - 3
             in getDate d + (153 * m + 2) div 5 + 365 * y + y div 4 - y div 100 + y div 400 - 32045)"
  have N: "?N \<le> 5400000"
    using assms by (intro julian_int_upper) (simp_all add: fourDigitDate_def)
  have h: "(of_int (getHours d - 12) :: rat) / 24 \<le> 1"
    using assms by (simp add: fourDigitDate_def)
  have mi: "(of_int (getMinutes d) :: rat) / 1440 \<le> 1"
    using assms by (simp add: fourDigitDate_def)
  have se: "(of_int (getSeconds d) :: rat) / 86400 \<le> 1"
    using assms by (simp add: fourDigitDate_def)
  have "toJulianDay d = of_int ?N + of_int (getHours d - 12) / 24
          + of_int (getMinutes d) / 1440 + of_int (getSeconds d) / 86400"
    by (simp add: toJulianDay_def Let_def)
  moreover have "(of_int ?N :: rat) \<le> 5400000" using N by linarith
  ultimately show ?thesis using h mi se by linarith
qed

lemma ayanamsa_upper:
  assumes "fourDigitDate d"
  shows "calculateAyanamsa (toJulianDay d) \<le> 360"
proof -
  have "toJulianDay d \<le> 5400003" using assms by (rule toJulianDay_upper)
  then show ?thesis by (simp add: calculateAyanamsa_def Let_def field_simps)
qed


lemma rahu_nonneg:
  assumes "fourDigitDate d"
  shows "0 \<le> longitude (planetPosition (toJulianDay d) (calculateAyanamsa (toJulianDay d)) ''RAHU'' 11)
         \<and> 0 \<le> sign (planetPosition (toJulianDay d) (calculateAyanamsa (toJulianDay d)) ''RAHU'' 11)"
proof -
  let ?x = "360 - calculateAyanamsa (toJulianDay d)"
  have x: "0 \<le> ?x" using ayanamsa_upper [OF assms] by simp
  then have "jsRem ?x 360 = floorMod ?x 360" by (simp add: jsRem_nonneg)
  then have "0 \<le> jsRem ?x 360" using floorMod_range [of 360 ?x] by simp
  then show ?thesis by (simp add: rahu_position)
qed

subsection \<open>Ketu\<close>

text \<open>
  Claim C7. In every chart that \<open>computeNatalChart\<close> returns there are records for Rahu
  and Ketu; Ketu's longitude is (Rahu's longitude + 180) \<^verbatim>\<open>%\<close> 360 and Ketu's sign is
  (Rahu's sign + 6) \<^verbatim>\<open>%\<close> 12, with the JavaScript remainder. For a birth date with a
  four-digit year Rahu's longitude and sign are not negative, and the JavaScript remainder
  is the mathematical modulus.
\<close>

theorem ketu_opposite_rahu:
  "\<exists>rahu ketu. map_of (planets (computeNatalChart lon d)) ''rahu'' = Some rahu
     \<and> map_of (planets (computeNatalChart lon d)) ''ketu'' = Some ketu
     \<and> longitude ketu = jsRem (longitude rahu + 180) 360
     \<and> sign ketu = jsRemInt (sign rahu + 6) 12
     \<and> (fourDigitDate d \<longrightarrow>
          longitude ketu = floorMod (longitude rahu + 180) 360
          \<and> sign ketu = (sign rahu + 6) mod 12)"
proof -
  let ?r = "planetPosition (toJulianDay d) (calculateAyanamsa (toJulianDay d)) ''RAHU'' 11"
  have r: "map_of (planets (computeNatalChart lon d)) ''rahu'' = Some ?r"
    by (simp add: chart_planets Let_def)
  have k: "map_of (planets (computeNatalChart lon d)) ''ketu'' = Some (ketuOf ?r)"
    by (simp add: chart_planets Let_def)
  have "longitude (ketuOf ?r) = floorMod (longitude ?r + 180) 360
        \<and> sign (ketuOf ?r) = (sign ?r + 6) mod 12" if "fourDigitDate d"
    using rahu_nonneg [OF that] by (simp add: ketuOf_def jsRem_nonneg jsRemInt_nonneg)
  then show ?thesis using r k by (simp add: ketuOf_def)
qed

theorem ketu_opposite_rahu_witness:
  "fourDigitDate date_2000_01_01
   \<and> map_of (planets (computeNatalChart 77 date_2000_01_01)) ''rahu''
       = Some \<lparr> longitude = 336.15, sign = 11, degree = 6.15, nakshatra = [], pada = 1, retrograde = False \<rparr>
   \<and> map_of (planets (computeNatalChart 77 date_2000_01_01)) ''ketu''
       = Some \<lparr> longitude = 156.15, sign = 5, degree = 6.15, nakshatra = [], pada = 1, retrograde = False \<rparr>"
proof -
  have v: "fourDigitDate date_2000_01_01" by (simp add: fourDigitDate_def date_2000_01_01_def)
  have jd: "toJulianDay date_2000_01_01 = 2451545" by (simp add: toJulianDay_def date_2000_01_01_def)
  have ay: "calculateAyanamsa 2451545 = 23.85" by (simp add: calculateAyanamsa_def)
  have f1: "\<lfloor>(6723 / 7200 :: rat)\<rfloor> = 0" by (rule floor_unique) simp_all
  have rl: "jsRem (6723 / 20) 360 = 6723 / 20"
    using f1 by (simp add: jsRem_def jsTrunc_def)
  have f2: "\<lfloor>(2241 / 200 :: rat)\<rfloor> = 11" by (rule floor_unique) simp_all
  have rd: "jsRem (6723 / 20) 30 = 123 / 20" using f2 by (simp add: jsRem_def jsTrunc_def)
  have r: "map_of (planets (computeNatalChart 77 date_2000_01_01)) ''rahu''
       = Some \<lparr> longitude = 336.15, sign = 11, degree = 6.15, nakshatra = [], pada = 1, retrograde = False \<rparr>"
    by (simp add: chart_planets Let_def jd ay rahu_position rl rd f2)
  from ketu_opposite_rahu [of 77 date_2000_01_01] v r
  obtain ketu where k: "map_of (planets (computeNatalChart 77 date_2000_01_01)) ''ketu'' = Some ketu"
    and kl: "longitude ketu = floorMod (336.15 + 180) 360" and ks: "sign ketu = (11 + 6) mod 12"
    by auto
  have "map_of (planets (computeNatalChart 77 date_2000_01_01)) ''ketu''
      = Some (ketuOf \<lparr> longitude = 336.15, sign = 11, degree = 6.15, nakshatra = [], pada = 1, retrograde = False \<rparr>)"
    by (simp add: chart_planets Let_def jd ay rahu_position rl rd f2)
  moreover have f3: "\<lfloor>(3441 / 2400 :: rat)\<rfloor> = 1" by (rule floor_unique) simp_all
  ultimately have "ketu = \<lparr> longitude = 156.15, sign = 5, degree = 6.15, nakshatra = [], pada = 1, retrograde = False \<rparr>"
    using k kl ks by (simp add: ketuOf_def floorMod_def f3)
  with v r k show ?thesis by simp
qed

subsection \<open>Divisional charts\<close>

lemma D9_vargaStep:
  "D9 (vargaStep v e) =
     AList.update (fst e)
       (jsRemInt (sign (snd e) * 9 + \<lfloor>jsRem (longitude (snd e)) 30 / 3.333333\<rfloor>) 12) (D9 v)"
  by (simp add: vargaStep_def Let_def)

lemma map_of_D9_foldl:
  "map_of (D9 (foldl vargaStep v ps)) nm =
     (case map_of (rev ps) nm of
        Some p \<Rightarrow> Some (jsRemInt (sign p * 9 + \<lfloor>jsRem (longitude p) 30 / 3.333333\<rfloor>) 12)
      | None \<Rightarrow> map_of (D9 v) nm)"
proof (induction ps arbitrary: v)
  case Nil
  show ?case by simp
next
  case (Cons e ps)
  show ?case
    by (cases e) (simp add: Cons.IH D9_vargaStep update_conv' map_add_def split: option.splits)
qed

lemma D10_vargaStep:
  "D10 (vargaStep v e) =
     AList.update (fst e)
       (jsRemInt (sign (snd e) * 10 + \<lfloor>jsRem (longitude (snd e)) 30 / 3\<rfloor>) 12) (D10 v)"
  by (simp add: vargaStep_def Let_def)

lemma map_of_D10_foldl:
  "map_of (D10 (foldl vargaStep v ps)) nm =
     (case map_of (rev ps) nm of
        Some p \<Rightarrow> Some (jsRemInt (sign p * 10 + \<lfloor>jsRem (longitude p) 30 / 3\<rfloor>) 12)
      | None \<Rightarrow> map_of (D10 v) nm)"
proof (induction ps arbitrary: v)
  case Nil
  show ?case by simp
next
  case (Cons e ps)
  show ?case
    by (cases e) (simp add: Cons.IH D10_vargaStep update_conv' map_add_def split: option.splits)
qed

lemma D12_vargaStep:
  "D12 (vargaStep v e) =
     AList.update (fst e)
       (jsRemInt (sign (snd e) * 12 + \<lfloor>jsRem (longitude (snd e)) 30 / 2.5\<rfloor>) 12) (D12 v)"
  by (simp add: vargaStep_def Let_def)

lemma map_of_D12_foldl:
  "map_of (D12 (foldl vargaStep v ps)) nm =
     (case map_of (rev ps) nm of
        Some p \<Rightarrow> Some (jsRemInt (sign p * 12 + \<lfloor>jsRem (longitude p) 30 / 2.5\<rfloor>) 12)
      | None \<Rightarrow> map_of (D12 v) nm)"
proof (induction ps arbitrary: v)
  case Nil
  show ?case by simp
next
  case (Cons e ps)
  show ?case
    by (cases e) (simp add: Cons.IH D12_vargaStep update_conv' map_add_def split: option.splits)
qed

text \<open>
  The D10 and D12 widths 3 and 2.5 are exact: for a planet whose longitude and sign are
  not negative the code's D10 and D12 signs are those of the specified formula.
\<close>

lemma floor_floorMod_nonneg: "0 < y \<Longrightarrow> 0 < w \<Longrightarrow> 0 \<le> \<lfloor>floorMod x y / w\<rfloor>"
  using floorMod_range [of y x] by simp

lemma varga_exact_widths:
  assumes p: "map_of (rev (planets natalChart)) nm = Some p"
    and lng: "0 \<le> longitude p" and sg: "0 \<le> sign p"
  shows "map_of (D10 (computeVargas natalChart)) nm = Some (vargaSignSpec 10 p)
       \<and> map_of (D12 (computeVargas natalChart)) nm = Some (vargaSignSpec 12 p)"
proof -
  have r: "jsRem (longitude p) 30 = floorMod (longitude p) 30"
    using lng by (simp add: jsRem_nonneg)
  have f10: "0 \<le> \<lfloor>floorMod (longitude p) 30 / 3\<rfloor>"
    by (rule floor_floorMod_nonneg) simp_all
  have f12: "0 \<le> \<lfloor>floorMod (longitude p) 30 / (5 / 2)\<rfloor>"
    by (rule floor_floorMod_nonneg) simp_all
  have "0 \<le> sign p * 10 + \<lfloor>floorMod (longitude p) 30 / 3\<rfloor>" using sg f10 by simp
  then have d10: "jsRemInt (sign p * 10 + \<lfloor>floorMod (longitude p) 30 / 3\<rfloor>) 12 = vargaSignSpec 10 p"
    by (simp add: jsRemInt_nonneg vargaSignSpec_def)
  have "0 \<le> sign p * 12 + \<lfloor>floorMod (longitude p) 30 / (5 / 2)\<rfloor>" using sg f12 by simp
  then have d12: "jsRemInt (sign p * 12 + \<lfloor>floorMod (longitude p) 30 / (5 / 2)\<rfloor>) 12 = vargaSignSpec 12 p"
    by (simp add: jsRemInt_nonneg vargaSignSpec_def)
  show ?thesis
    using d10 d12 by (simp add: computeVargas_def map_of_D10_foldl map_of_D12_foldl p r)
qed

lemma jd_1986: "toJulianDay birth_1986_03_08 = 195719813 / 80"
  by (simp add: toJulianDay_def birth_1986_03_08_def)

lemma mars_1986:
  "planetPosition (195719813 / 80) (calculateAyanamsa (195719813 / 80)) ''MARS'' 4 =
     \<lparr> longitude = 58817911837193438899103 / 284602800000000000000, sign = 6,
       degree = 7589407837193438899103 / 284602800000000000000,
       nakshatra = [], pada = 1, retrograde = False \<rparr>"
  by code_simp

text \<open>
  Claim C8, at a birth on 1986-03-08 at 03:54. Mars stands at 26.666666095 degrees of sign
  6. The code divides by 3.333333 and gets subdivision 8 and D9 sign 2; the specified
  formula divides by the exact width 30/9 and gets subdivision 7 and D9 sign 1.
\<close>

theorem d9_mars_1986:
  "map_of (planets (computeNatalChart 77 birth_1986_03_08)) ''mars'' =
     Some \<lparr> longitude = 58817911837193438899103 / 284602800000000000000, sign = 6,
            degree = 7589407837193438899103 / 284602800000000000000,
            nakshatra = [], pada = 1, retrograde = False \<rparr>
   \<and> map_of (D9 (computeVargas (computeNatalChart 77 birth_1986_03_08))) ''mars'' = Some 2
   \<and> vargaSignSpec 9 \<lparr> longitude = 58817911837193438899103 / 284602800000000000000, sign = 6,
            degree = 7589407837193438899103 / 284602800000000000000,
            nakshatra = [], pada = 1, retrograde = False \<rparr> = 1"
proof -
  let ?lng = "58817911837193438899103 / 284602800000000000000 :: rat"
  have m: "map_of (planets (computeNatalChart 77 birth_1986_03_08)) ''mars'' =
     Some \<lparr> longitude = ?lng, sign = 6,
            degree = 7589407837193438899103 / 284602800000000000000,
            nakshatra = [], pada = 1, retrograde = False \<rparr>"
    by (simp add: chart_planets Let_def jd_1986 mars_1986)
  have mr: "map_of (rev (planets (computeNatalChart 77 birth_1986_03_08))) ''mars'' =
     Some \<lparr> longitude = ?lng, sign = 6,
            degree = 7589407837193438899103 / 284602800000000000000,
            nakshatra = [], pada = 1, retrograde = False \<rparr>"
    by (simp add: chart_planets Let_def jd_1986 mars_1986)
  have q: "\<lfloor>?lng / 30\<rfloor> = 6" by (rule floor_unique) simp_all
  have rem30: "jsRem ?lng 30 = 7589407837193438899103 / 284602800000000000000"
    using q by (simp add: jsRem_def jsTrunc_def)
  have fm30: "floorMod ?lng 30 = 7589407837193438899103 / 284602800000000000000"
    using q by (simp add: floorMod_def)
  have code: "\<lfloor>(7589407837193438899103 / 284602800000000000000 :: rat) / 3.333333\<rfloor> = 8"
    by (rule floor_unique) simp_all
  have spec: "\<lfloor>(7589407837193438899103 / 284602800000000000000 :: rat) / (30 / 9)\<rfloor> = 7"
    by (rule floor_unique) simp_all
  have d9: "map_of (D9 (computeVargas (computeNatalChart 77 birth_1986_03_08))) ''mars'' = Some 2"
    using code by (simp add: computeVargas_def map_of_D9_foldl mr rem30 jsRemInt_def)
  have "vargaSignSpec 9 \<lparr> longitude = ?lng, sign = 6,
            degree = 7589407837193438899103 / 284602800000000000000,
            nakshatra = [], pada = 1, retrograde = False \<rparr> = 1"
    using spec by (simp add: vargaSignSpec_def fm30)
  with m d9 show ?thesis by simp
qed

subsection \<open>Planet ranges\<close>

lemma jd_1990: "toJulianDay birth_1990_01_04 = 2447896"
  by (simp add: toJulianDay_def birth_1990_01_04_def)

lemma moon_1990:
  "planetPosition 2447896 (calculateAyanamsa 2447896) ''MOON'' 1 =
     \<lparr> longitude = - (4568983731031277 / 741153125000000), sign = - 1,
       degree = - (4568983731031277 / 741153125000000),
       nakshatra = ''Unknown'', pada = - 1, retrograde = False \<rparr>"
  by code_simp

text \<open>
  Claim C10, at a birth on 1990-01-04 at 12:00, a date with a four-digit year. The Moon's
  formula longitude is negative there, adding 360 does not make the sidereal longitude
  positive, and the remainder keeps the sign: the Moon's record has a negative longitude,
  sign -1, nakshatra \<^verbatim>\<open>'Unknown'\<close> and pada -1.
\<close>

theorem moon_1990_01_04:
  "map_of (planets (computeNatalChart 77 birth_1990_01_04)) ''moon'' =
     Some \<lparr> longitude = - (4568983731031277 / 741153125000000), sign = - 1,
            degree = - (4568983731031277 / 741153125000000),
            nakshatra = ''Unknown'', pada = - 1, retrograde = False \<rparr>"
  by (simp add: chart_planets Let_def jd_1990 moon_1990)

subsection \<open>Vimshottari dasa\<close>

text \<open>
  Claim C9, for \<open>computeVimshottariDasa\<close> with the same Moon longitude 0 at two readings
  of the clock, 10 March 2024 and 10 March 2025: the maha period has the same planet and a
  start date of 10 March 2022 in one call and 10 March 2023 in the other.
\<close>

theorem dasa_reads_clock:
  "map_sum id (\<lambda>r. (planet (currentMaha r), startDate (currentMaha r)))
       (computeVimshottariDasa now_2024_03_10 0)
     = Inr (''Ketu'', \<lparr> getFullYear = 2022, getMonth = 2, getDate = 10, getHours = 0,
                        getMinutes = 0, getSeconds = 0, getMilliseconds = 0 \<rparr>)
   \<and> map_sum id (\<lambda>r. (planet (currentMaha r), startDate (currentMaha r)))
       (computeVimshottariDasa now_2025_03_10 0)
     = Inr (''Ketu'', \<lparr> getFullYear = 2023, getMonth = 2, getDate = 10, getHours = 0,
                        getMinutes = 0, getSeconds = 0, getMilliseconds = 0 \<rparr>)"
  by code_simp

end
